theory Spec2Isabelle
  imports Main "HOL-Library.AList"
begin

section \<open>hwio: the Odroid C1/C2 driver, the device-tree GPIO module, the analog module\<close>

text \<open>
  The Go sources embedded here are \<^verbatim>\<open>module_dtgpio.go\<close> (the GPIO module),
  the analog module of the Odroid driver and \<^verbatim>\<open>driver_odroid_cx.go\<close>
  (hardware detection). A Go map is an association list with unique keys (Go iterates
  a map in an unspecified order: every statement below holds for any order of the
  list). A pointer to an open-pin object is the entry of the module's \<open>openPins\<close>
  table: a function that changes the object returns it, and the caller stores it back.
  Every function that touches the operating system or the pin registry takes the
  system state and returns the new one.
\<close>

subsection \<open>Basic types\<close>

text \<open>\<^verbatim>\<open>type Pin int\<close>.\<close>

type_synonym Pin = int

text \<open>
  Modelled from the spec: \<^verbatim>\<open>PinIOMode\<close>, \<^verbatim>\<open>High\<close> and
  \<^verbatim>\<open>Low\<close>, which are declared in \<^verbatim>\<open>hwio.go\<close> (not among the
  sources). The modules name the modes \<^verbatim>\<open>Input\<close>, \<^verbatim>\<open>Output\<close>,
  \<^verbatim>\<open>InputPullUp\<close> and \<^verbatim>\<open>InputPullDown\<close>; the levels are integers,
  \<^verbatim>\<open>Low\<close> is 0 (\<^verbatim>\<open>gpioSetValue\<close> writes "0" exactly for the value 0,
  and any non-zero value maps to the high token) and \<^verbatim>\<open>High\<close> is 1.
\<close>

datatype PinIOMode = Input | Output | InputPullUp | InputPullDown

definition High :: int where
  "High = 1"

definition Low :: int where
  "Low = 0"

text \<open>
  The errors the modules build themselves (with \<^verbatim>\<open>errors.New\<close> and
  \<^verbatim>\<open>fmt.Errorf\<close>), the error of \<^verbatim>\<open>strconv.Atoi\<close>, and the errors
  of Go's \<^verbatim>\<open>os\<close> package and of the kernel.
\<close>

datatype error =
    ErrNoPinsOption string      \<comment> \<open>"module '%s' SetOptions() did not get 'pins' values"\<close>
  | ErrNotGPIOPin Pin           \<comment> \<open>"pin %d is not known as a GPIO pin"\<close>
  | ErrNotKnownToGPIO Pin       \<comment> \<open>"pin %d is not known to GPIO module"\<close>
  | ErrWriteNotOpened           \<comment> \<open>"pin is being written but has not been opened, called PinMode"\<close>
  | ErrReadNotOpened            \<comment> \<open>"pin is being read from but has not been opened, call PinMode"\<close>
  | ErrCloseNotOpened           \<comment> \<open>"pin is being closed but has not been opened, call PinMode"\<close>
  | ErrDirection                \<comment> \<open>"direction must be in or out"\<close>
  | ErrValueFileUndefined       \<comment> \<open>"value file is not defined"\<close>
  | ErrAnalogNotOpened          \<comment> \<open>"Pin is being read for analog value but has not been opened. ..."\<close>
  | ErrNotKnownToAnalog Pin     \<comment> \<open>"Pin %d is not known to analog module"\<close>
  | ErrAlreadyAssigned Pin string  \<comment> \<open>the registry's refusal: the pin belongs to the named module\<close>
  | ErrNotAssigned Pin          \<comment> \<open>the registry's refusal: the pin has no owner\<close>
  | ErrSyntax string            \<comment> \<open>\<^verbatim>\<open>strconv.ErrSyntax\<close> for the given text\<close>
  | EOF                         \<comment> \<open>\<^verbatim>\<open>io.EOF\<close>\<close>
  | ErrInvalid                  \<comment> \<open>\<^verbatim>\<open>os.ErrInvalid\<close>: a method called on a nil file\<close>
  | ErrClosed                   \<comment> \<open>\<^verbatim>\<open>os.ErrClosed\<close>: a method called on a closed file\<close>
  | ENOENT | EBADF | EBUSY | EINVAL

text \<open>A Go call either returns or panics.\<close>

datatype 'a outcome = Returns 'a | Panics

subsection \<open>\<^verbatim>\<open>strconv\<close>\<close>

text \<open>
  \<^verbatim>\<open>strconv.FormatInt(i, 10)\<close>: the decimal digits of \<open>i\<close>, taken from the
  table of digits, with a minus sign for a negative number;
  \<^verbatim>\<open>strconv.Itoa(i)\<close> is \<^verbatim>\<open>FormatInt(int64(i), 10)\<close>. The logical
  indices of the pin tables are small, and the bound of \<^verbatim>\<open>int64\<close> is left out.
\<close>

definition digit_char :: "nat \<Rightarrow> char" where
  "digit_char d = ''0123456789'' ! d"

function formatBits :: "nat \<Rightarrow> string" where
  "formatBits n = (if n < 10 then [digit_char n] else formatBits (n div 10) @ [digit_char (n mod 10)])"
  by pat_completeness auto
termination
  by (relation "measure id") auto

declare formatBits.simps [simp del]

definition FormatInt :: "int \<Rightarrow> string" where
  "FormatInt i = (if i < 0 then CHR ''-'' # formatBits (nat (- i)) else formatBits (nat i))"

definition Itoa :: "int \<Rightarrow> string" where
  "Itoa i = FormatInt i"

text \<open>
  \<^verbatim>\<open>strconv.Atoi\<close> on a text of fewer than 19 bytes (the analog module passes at
  most 4): the empty text and a lone sign are syntax errors; otherwise every byte after
  an optional sign must be a digit (\<^verbatim>\<open>ch -= '0'; if ch > 9\<close>, on bytes), and the
  digits are accumulated as \<^verbatim>\<open>n = n*10 + int(ch)\<close>.
\<close>

fun atoi_loop :: "nat \<Rightarrow> string \<Rightarrow> nat option" where
  "atoi_loop n [] = Some n"
| "atoi_loop n (ch # s) =
     (let d = (of_char ch + 208) mod 256 :: nat in
      if d > 9 then None else atoi_loop (n * 10 + d) s)"

definition Atoi :: "string \<Rightarrow> int \<times> error option" where
  "Atoi s0 =
     (if s0 = [] then (0, Some (ErrSyntax s0))
      else
        let s = (if hd s0 = CHR ''-'' \<or> hd s0 = CHR ''+'' then tl s0 else s0) in
        if s = [] then (0, Some (ErrSyntax s0))
        else
          (case atoi_loop 0 s of
             None \<Rightarrow> (0, Some (ErrSyntax s0))
           | Some n \<Rightarrow> (if hd s0 = CHR ''-'' then - int n else int n, None)))"

subsection \<open>The operating system\<close>

text \<open>
  Files by path, with their content (a directory has the empty content), and the table
  of the \<^verbatim>\<open>*os.File\<close> objects the process has opened: a file is \<open>None\<close> (nil) or
  the index of its object. The registry of assigned pins (\<^verbatim>\<open>hwio.go\<close>) maps a pin
  to the name of the module that owns it. The trace lists every call that changes the
  system, in the order the program makes them.
\<close>

datatype oflag = O_RDONLY | O_WRONLY_TRUNC

record ofile =
  fpath :: string
  fflag :: oflag
  fpos :: nat
  fclosed :: bool

type_synonym osfile = "nat option"

datatype event =
    EvWriteStringToFile string string
  | EvOpenFile string oflag
  | EvClose osfile
  | EvSeek osfile nat
  | EvWriteString osfile string
  | EvAssignPin Pin string
  | EvUnassignPin Pin

record sys =
  paths :: "string \<rightharpoonup> string"
  files :: "ofile list"
  assignedPins :: "Pin \<rightharpoonup> string"
  trace :: "event list"

definition emit :: "event \<Rightarrow> sys \<Rightarrow> sys" where
  "emit ev w = w\<lparr>trace := trace w @ [ev]\<rparr>"

text \<open>
  \<^verbatim>\<open>os.OpenFile(path, flag, 0666)\<close> without \<^verbatim>\<open>O_CREATE\<close>: a missing path
  is an error and the file is nil; otherwise a new file object, at offset 0, and
  \<^verbatim>\<open>O_TRUNC\<close> empties the content.
\<close>

definition OpenFile :: "string \<Rightarrow> oflag \<Rightarrow> sys \<Rightarrow> osfile \<times> error option \<times> sys" where
  "OpenFile path flag w0 =
     (let w = emit (EvOpenFile path flag) w0 in
      case paths w path of
        None \<Rightarrow> (None, Some ENOENT, w)
      | Some c \<Rightarrow>
          (Some (length (files w)), None,
           w\<lparr>files := files w @ [\<lparr>fpath = path, fflag = flag, fpos = 0, fclosed = False\<rparr>],
             paths := (if flag = O_WRONLY_TRUNC then (paths w)(path \<mapsto> []) else paths w)\<rparr>))"

text \<open>
  The state of a file as a method sees it: \<^verbatim>\<open>os.ErrInvalid\<close> on nil,
  \<^verbatim>\<open>os.ErrClosed\<close> after \<^verbatim>\<open>Close\<close>.
\<close>

definition checkValid :: "osfile \<Rightarrow> sys \<Rightarrow> error + (nat \<times> ofile)" where
  "checkValid f w =
     (case f of
        None \<Rightarrow> Inl ErrInvalid
      | Some h \<Rightarrow>
          if h \<ge> length (files w) then Inl ErrInvalid
          else if fclosed (files w ! h) then Inl ErrClosed
          else Inr (h, files w ! h))"

definition Close :: "osfile \<Rightarrow> sys \<Rightarrow> error option \<times> sys" where
  "Close f w0 =
     (let w = emit (EvClose f) w0 in
      case checkValid f w of
        Inl e \<Rightarrow> (Some e, w)
      | Inr (h, fo) \<Rightarrow> (None, w\<lparr>files := (files w)[h := fo\<lparr>fclosed := True\<rparr>]\<rparr>))"

text \<open>
  \<^verbatim>\<open>f.ReadAt(b, off)\<close> with \<open>len(b) = k\<close>: the number of bytes read, the bytes
  (the first \<open>n\<close> of \<open>b\<close>) and the error, which is never nil when \<open>n < k\<close>
  (\<^verbatim>\<open>io.EOF\<close> at the end of the file). It changes nothing.
\<close>

definition ReadAt :: "osfile \<Rightarrow> nat \<Rightarrow> nat \<Rightarrow> sys \<Rightarrow> nat \<times> string \<times> error option" where
  "ReadAt f k off w =
     (case checkValid f w of
        Inl e \<Rightarrow> (0, [], Some e)
      | Inr (h, fo) \<Rightarrow>
          if fflag fo \<noteq> O_RDONLY then (0, [], Some EBADF)
          else
            (case paths w (fpath fo) of
               None \<Rightarrow> (0, [], Some ENOENT)
             | Some c \<Rightarrow>
                 let b = take k (drop off c) in
                 (length b, b, if length b < k then Some EOF else None)))"

text \<open>\<^verbatim>\<open>f.Seek(offset, 0)\<close>: the offset counts from the start of the file.\<close>

definition Seek :: "osfile \<Rightarrow> nat \<Rightarrow> sys \<Rightarrow> error option \<times> sys" where
  "Seek f off w0 =
     (let w = emit (EvSeek f off) w0 in
      case checkValid f w of
        Inl e \<Rightarrow> (Some e, w)
      | Inr (h, fo) \<Rightarrow> (None, w\<lparr>files := (files w)[h := fo\<lparr>fpos := off\<rparr>]\<rparr>))"

text \<open>
  \<^verbatim>\<open>f.WriteString(s)\<close>: refused on a file opened read-only; otherwise the text
  replaces the content from the file's offset on, and the offset advances.
\<close>

definition WriteString :: "osfile \<Rightarrow> string \<Rightarrow> sys \<Rightarrow> error option \<times> sys" where
  "WriteString f s w0 =
     (let w = emit (EvWriteString f s) w0 in
      case checkValid f w of
        Inl e \<Rightarrow> (Some e, w)
      | Inr (h, fo) \<Rightarrow>
          if fflag fo = O_RDONLY then (Some EBADF, w)
          else
            (case paths w (fpath fo) of
               None \<Rightarrow> (Some ENOENT, w)
             | Some c \<Rightarrow>
                 (None,
                  w\<lparr>paths := (paths w)(fpath fo \<mapsto> take (fpos fo) c @ s @ drop (fpos fo + length s) c),
                    files := (files w)[h := fo\<lparr>fpos := fpos fo + length s\<rparr>]\<rparr>)))"

text \<open>
  The kernel's GPIO control files, as the spec gives the protocol: the decimal index
  written to the \<^verbatim>\<open>export\<close> path materialises the pin's control directory with
  its \<^verbatim>\<open>direction\<close> and \<^verbatim>\<open>value\<close> files, the index written to the
  \<^verbatim>\<open>unexport\<close> path releases it; any other file takes the text as its content.
\<close>

definition gpio_node :: "string \<Rightarrow> string" where
  "gpio_node s = ''/sys/class/gpio/gpio'' @ s"

definition sysfs_write :: "string \<Rightarrow> string \<Rightarrow> (string \<rightharpoonup> string) \<Rightarrow> error + (string \<rightharpoonup> string)" where
  "sysfs_write path s fs =
     (if fs path = None then Inl ENOENT
      else if path = ''/sys/class/gpio/export'' then
        (if fs (gpio_node s) \<noteq> None then Inl EBUSY
         else Inr (fs(gpio_node s \<mapsto> [],
                      gpio_node s @ ''/direction'' \<mapsto> ''in'',
                      gpio_node s @ ''/value'' \<mapsto> [CHR ''0'', CHR 0x0A])))
      else if path = ''/sys/class/gpio/unexport'' then
        (if fs (gpio_node s) = None then Inl EINVAL
         else Inr (fs(gpio_node s := None,
                      gpio_node s @ ''/direction'' := None,
                      gpio_node s @ ''/value'' := None)))
      else Inr (fs(path \<mapsto> s)))"

subsection \<open>The helpers of \<^verbatim>\<open>hwio.go\<close>\<close>

text \<open>
  Modelled from the spec: \<^verbatim>\<open>WriteStringToFile\<close> and \<^verbatim>\<open>fileExists\<close> of
  \<^verbatim>\<open>hwio.go\<close>, which is not among the sources. The spec's device protocol
  writes a fixed-format string to a known path and tests whether the control directory
  is present.
\<close>

definition WriteStringToFile :: "string \<Rightarrow> string \<Rightarrow> sys \<Rightarrow> error option \<times> sys" where
  "WriteStringToFile filename v w0 =
     (let w = emit (EvWriteStringToFile filename v) w0 in
      case sysfs_write filename v (paths w) of
        Inl e \<Rightarrow> (Some e, w)
      | Inr fs \<Rightarrow> (None, w\<lparr>paths := fs\<rparr>))"

definition fileExists :: "string \<Rightarrow> sys \<Rightarrow> bool" where
  "fileExists filename w = (paths w filename \<noteq> None)"

text \<open>
  Modelled from the spec: \<^verbatim>\<open>AssignPin\<close> and \<^verbatim>\<open>UnassignPin\<close> of
  \<^verbatim>\<open>hwio.go\<close>, the Pin Assignment Registry. \<open>assign\<close> fails if the pin is
  already owned by a different module, and assigning to the module that already owns it
  is a no-op success; \<open>unassign\<close> removes the entry, or fails when there is none.
\<close>

definition AssignPin :: "Pin \<Rightarrow> string \<Rightarrow> sys \<Rightarrow> error option \<times> sys" where
  "AssignPin pin module w0 =
     (let w = emit (EvAssignPin pin module) w0 in
      case assignedPins w pin of
        None \<Rightarrow> (None, w\<lparr>assignedPins := (assignedPins w)(pin \<mapsto> module)\<rparr>)
      | Some owner \<Rightarrow>
          if owner = module then (None, w) else (Some (ErrAlreadyAssigned pin owner), w))"

definition UnassignPin :: "Pin \<Rightarrow> sys \<Rightarrow> error option \<times> sys" where
  "UnassignPin pin w0 =
     (let w = emit (EvUnassignPin pin) w0 in
      case assignedPins w pin of
        None \<Rightarrow> (Some (ErrNotAssigned pin), w)
      | Some owner \<Rightarrow> (None, w\<lparr>assignedPins := (assignedPins w)(pin := None)\<rparr>))"

subsection \<open>\<^verbatim>\<open>module_dtgpio.go\<close>\<close>

record DTGPIOModulePinDef =
  def_pin :: Pin
  def_gpioLogical :: int

type_synonym DTGPIOModulePinDefMap = "(Pin \<times> DTGPIOModulePinDef) list"

record DTGPIOModuleOpenPin =
  pin :: Pin
  gpioLogical :: int
  gpioBaseName :: string
  mode :: PinIOMode
  valueFile :: osfile

record DTGPIOModule =
  name :: string
  definedPins :: DTGPIOModulePinDefMap
  openPins :: "(Pin \<times> DTGPIOModuleOpenPin) list"

text \<open>The pin definitions of the analog module, which an options bundle can hold as well.\<close>

record ODroidCXAnalogModulePinDef =
  adef_pin :: Pin
  adef_analogLogical :: int

type_synonym ODroidCXAnalogModulePinDefMap = "(Pin \<times> ODroidCXAnalogModulePinDef) list"

text \<open>
  The values an options bundle (\<^verbatim>\<open>map[string]interface{}\<close>) can hold: the nil
  interface, the pin maps of the two modules, and values of other types (the list of
  pins of a bus module, a device path, a number).
\<close>

datatype optvalue =
    NilValue
  | GPIOPins DTGPIOModulePinDefMap
  | AnalogPins ODroidCXAnalogModulePinDefMap
  | PinList "Pin list"
  | StringValue string
  | IntValue int

type_synonym options = "string \<rightharpoonup> optvalue"

definition NewDTGPIOModule :: "string \<Rightarrow> DTGPIOModule" where
  "NewDTGPIOModule nm = \<lparr>name = nm, definedPins = [], openPins = []\<rparr>"

definition GetName :: "DTGPIOModule \<Rightarrow> string" where
  "GetName module = name module"

text \<open>
  \<^verbatim>\<open>v.(DTGPIOModulePinDefMap)\<close> is a type assertion with one result: it panics
  when \<open>v\<close> holds a value of another type.
\<close>

definition SetOptions :: "DTGPIOModule \<Rightarrow> options \<Rightarrow> (error option \<times> DTGPIOModule) outcome" where
  "SetOptions module opts =
     (let v = (case opts ''pins'' of None \<Rightarrow> NilValue | Some x \<Rightarrow> x) in
      if v = NilValue then Returns (Some (ErrNoPinsOption (GetName module)), module)
      else
        (case v of
           GPIOPins m \<Rightarrow> Returns (None, module\<lparr>definedPins := m\<rparr>)
         | _ \<Rightarrow> Panics))"

definition Enable :: "DTGPIOModule \<Rightarrow> error option" where
  "Enable module = None"

definition gpioUnexport :: "DTGPIOModuleOpenPin \<Rightarrow> sys \<Rightarrow> error option \<times> sys" where
  "gpioUnexport op w =
     (let s = FormatInt (gpioLogical op);
          (e, w1) = WriteStringToFile ''/sys/class/gpio/unexport'' s w
      in if e \<noteq> None then (e, w1) else (None, w1))"

definition gpioExport :: "DTGPIOModuleOpenPin \<Rightarrow> sys \<Rightarrow> error option \<times> DTGPIOModuleOpenPin \<times> sys" where
  "gpioExport op w =
     (let bn = ''/sys/class/gpio/gpio'' @ Itoa (gpioLogical op) in
      if \<not> fileExists bn w then
        (let s = FormatInt (gpioLogical op);
             (e, w1) = WriteStringToFile ''/sys/class/gpio/export'' s w
         in if e \<noteq> None then (e, op, w1) else (None, op\<lparr>gpioBaseName := bn\<rparr>, w1))
      else (None, op\<lparr>gpioBaseName := bn\<rparr>, w))"

text \<open>
  The error of the write to the \<^verbatim>\<open>direction\<close> file is overwritten by the result
  of \<^verbatim>\<open>os.OpenFile\<close>, whose file (nil on an error) is stored in the object.
\<close>

definition gpioDirection :: "DTGPIOModuleOpenPin \<Rightarrow> string \<Rightarrow> sys \<Rightarrow> error option \<times> DTGPIOModuleOpenPin \<times> sys" where
  "gpioDirection op dir w =
     (if dir \<noteq> ''in'' \<and> dir \<noteq> ''out'' then (Some ErrDirection, op, w)
      else
        let f = gpioBaseName op @ ''/direction'';
            (e, w1) = WriteStringToFile f dir w;
            flag = (if dir = ''in'' then O_RDONLY else O_WRONLY_TRUNC);
            (vf, e', w2) = OpenFile (gpioBaseName op @ ''/value'') flag w1
        in (e', op\<lparr>valueFile := vf\<rparr>, w2))"

definition gpioGetValue :: "DTGPIOModuleOpenPin \<Rightarrow> sys \<Rightarrow> int \<times> error option" where
  "gpioGetValue op w =
     (let (n, b, e) = ReadAt (valueFile op) 1 0 w;
          v = (if n > 0 then (if b ! 0 = CHR ''1'' then High else Low) else 0)
      in (v, e))"

text \<open>The result of \<^verbatim>\<open>WriteString\<close> is not looked at.\<close>

definition gpioSetValue :: "DTGPIOModuleOpenPin \<Rightarrow> int \<Rightarrow> sys \<Rightarrow> error option \<times> sys" where
  "gpioSetValue op v w =
     (if valueFile op = None then (Some ErrValueFileUndefined, w)
      else
        let (e, w1) = Seek (valueFile op) 0 w in
        if e \<noteq> None then (e, w1)
        else
          let (e', w2) = (if v = 0 then WriteString (valueFile op) ''0'' w1
                          else WriteString (valueFile op) ''1'' w1)
          in (None, w2))"

text \<open>
  \<^verbatim>\<open>makeOpenGPIOPin\<close>: the new object has the pin and its logical index; the
  other fields have their zero values (the empty string, the first mode, the nil file).
\<close>

definition makeOpenGPIOPin :: "DTGPIOModule \<Rightarrow> Pin \<Rightarrow> (error + DTGPIOModuleOpenPin) \<times> DTGPIOModule" where
  "makeOpenGPIOPin module p =
     (case map_of (definedPins module) p of
        None \<Rightarrow> (Inl (ErrNotKnownToGPIO p), module)
      | Some d \<Rightarrow>
          let result = \<lparr>pin = p, gpioLogical = def_gpioLogical d, gpioBaseName = [],
                        mode = Input, valueFile = None\<rparr>
          in (Inr result, module\<lparr>openPins := AList.update p result (openPins module)\<rparr>))"

definition ClosePin :: "DTGPIOModule \<Rightarrow> Pin \<Rightarrow> sys \<Rightarrow> error option \<times> DTGPIOModule \<times> sys" where
  "ClosePin module p w =
     (case map_of (openPins module) p of
        None \<Rightarrow> (Some ErrCloseNotOpened, module, w)
      | Some openPin \<Rightarrow>
          let (e, w1) = gpioUnexport openPin w in
          if e \<noteq> None then (e, module, w1)
          else
            let (e, w2) = Close (valueFile openPin) w1 in
            if e \<noteq> None then (e, module, w2)
            else
              let module' = module\<lparr>openPins := AList.delete p (openPins module)\<rparr>;
                  (e, w3) = UnassignPin p w2
              in (e, module', w3))"

text \<open>
  Modelled from the spec: the package-level \<^verbatim>\<open>ClosePin\<close> of \<^verbatim>\<open>hwio.go\<close>,
  which \<^verbatim>\<open>PinMode\<close> calls. The spec's \<open>close(pin)\<close> unexports at the OS level,
  closes the handle and removes the Registry entry: the close path of the GPIO module.
\<close>

definition hwio_ClosePin :: "DTGPIOModule \<Rightarrow> Pin \<Rightarrow> sys \<Rightarrow> error option \<times> DTGPIOModule \<times> sys" where
  "hwio_ClosePin gpio p w = ClosePin gpio p w"

text \<open>
  \<^verbatim>\<open>PinMode\<close>. The result of \<^verbatim>\<open>ClosePin\<close> is not looked at. The open-pin
  object made by \<^verbatim>\<open>makeOpenGPIOPin\<close> is already in the table when a later step
  fails, with the fields it has by then.
\<close>

definition PinMode :: "DTGPIOModule \<Rightarrow> Pin \<Rightarrow> PinIOMode \<Rightarrow> sys \<Rightarrow> error option \<times> DTGPIOModule \<times> sys" where
  "PinMode module p md w =
     (if map_of (definedPins module) p = None then (Some (ErrNotGPIOPin p), module, w)
      else
        let (module1, w1) =
              (case map_of (openPins module) p of
                 None \<Rightarrow> (module, w)
               | Some oldOpenPin \<Rightarrow>
                   if md \<noteq> mode oldOpenPin
                   then (let (e0, m', w') = hwio_ClosePin module p w in (m', w'))
                   else (module, w));
            (e, w2) = AssignPin p (name module1) w1
        in
        if e \<noteq> None then (e, module1, w2)
        else
          (case makeOpenGPIOPin module1 p of
             (Inl e, module2) \<Rightarrow> (Some e, module2, w2)
           | (Inr openPin, module2) \<Rightarrow>
               let (e, openPin1, w3) = gpioExport openPin w2;
                   module3 = module2\<lparr>openPins := AList.update p openPin1 (openPins module2)\<rparr>
               in
               if e \<noteq> None then (e, module3, w3)
               else
                 let (e, openPin2, w4) =
                       (if md = Output then gpioDirection openPin1 ''out'' w3
                        else gpioDirection openPin1 ''in'' w3);
                     module4 = module3\<lparr>openPins := AList.update p openPin2 (openPins module3)\<rparr>
                 in
                 if e \<noteq> None then (e, module4, w4)
                 else
                   (None,
                    module4\<lparr>openPins := AList.update p (openPin2\<lparr>mode := md\<rparr>) (openPins module4)\<rparr>,
                    w4)))"

definition DigitalWrite :: "DTGPIOModule \<Rightarrow> Pin \<Rightarrow> int \<Rightarrow> sys \<Rightarrow> error option \<times> sys" where
  "DigitalWrite module p v w =
     (case map_of (openPins module) p of
        None \<Rightarrow> (Some ErrWriteNotOpened, w)
      | Some openPin \<Rightarrow>
          let (e0, w1) = gpioSetValue openPin v w in (None, w1))"

definition DigitalRead :: "DTGPIOModule \<Rightarrow> Pin \<Rightarrow> sys \<Rightarrow> int \<times> error option" where
  "DigitalRead module p w =
     (case map_of (openPins module) p of
        None \<Rightarrow> (0, Some ErrReadNotOpened)
      | Some openPin \<Rightarrow> gpioGetValue openPin w)"

text \<open>\<^verbatim>\<open>Disable\<close>: the loop over the open pins; the result of each call is dropped.\<close>

fun Disable_loop :: "(Pin \<times> DTGPIOModuleOpenPin) list \<Rightarrow> sys \<Rightarrow> sys" where
  "Disable_loop [] w = w"
| "Disable_loop ((p, openPin) # rest) w = Disable_loop rest (snd (gpioUnexport openPin w))"

definition Disable :: "DTGPIOModule \<Rightarrow> sys \<Rightarrow> error option \<times> DTGPIOModule \<times> sys" where
  "Disable module w = (None, module, Disable_loop (openPins module) w)"

subsection \<open>The analog module of the Odroid driver\<close>

record ODroidCXAnalogModuleOpenPin =
  apin :: Pin
  analogLogical :: int
  analogFile :: string
  avalueFile :: osfile

record ODroidCXAnalogModule =
  aname :: string
  analogInitialised :: bool
  adefinedPins :: ODroidCXAnalogModulePinDefMap
  aopenPins :: "(Pin \<times> ODroidCXAnalogModuleOpenPin) list"

definition NewODroidCXAnalogModule :: "string \<Rightarrow> ODroidCXAnalogModule" where
  "NewODroidCXAnalogModule nm =
     \<lparr>aname = nm, analogInitialised = False, adefinedPins = [], aopenPins = []\<rparr>"

definition AnalogGetName :: "ODroidCXAnalogModule \<Rightarrow> string" where
  "AnalogGetName module = aname module"

definition AnalogSetOptions :: "ODroidCXAnalogModule \<Rightarrow> options \<Rightarrow> (error option \<times> ODroidCXAnalogModule) outcome" where
  "AnalogSetOptions module opts =
     (let v = (case opts ''pins'' of None \<Rightarrow> NilValue | Some x \<Rightarrow> x) in
      if v = NilValue then Returns (Some (ErrNoPinsOption (AnalogGetName module)), module)
      else
        (case v of
           AnalogPins m \<Rightarrow> Returns (None, module\<lparr>adefinedPins := m\<rparr>)
         | _ \<Rightarrow> Panics))"

definition analogOpen :: "ODroidCXAnalogModuleOpenPin \<Rightarrow> sys \<Rightarrow> error option \<times> ODroidCXAnalogModuleOpenPin \<times> sys" where
  "analogOpen op w =
     (let (f, e, w1) = OpenFile (analogFile op) O_RDONLY w
      in (e, op\<lparr>avalueFile := f\<rparr>, w1))"

definition makeOpenAnalogPin :: "ODroidCXAnalogModule \<Rightarrow> Pin \<Rightarrow> sys \<Rightarrow> error option \<times> ODroidCXAnalogModule \<times> sys" where
  "makeOpenAnalogPin module p w =
     (case map_of (adefinedPins module) p of
        None \<Rightarrow> (Some (ErrNotKnownToAnalog p), module, w)
      | Some d \<Rightarrow>
          let path = ''/sys/class/saradc/saradc_ch'' @ Itoa (adef_analogLogical d);
              result = \<lparr>apin = p, analogLogical = adef_analogLogical d, analogFile = path,
                        avalueFile = None\<rparr>;
              (e, result1, w1) = analogOpen result w;
              module1 = module\<lparr>aopenPins := AList.update p result1 (aopenPins module)\<rparr>
          in if e \<noteq> None then (e, module1, w1) else (None, module1, w1))"

text \<open>
  \<^verbatim>\<open>Enable\<close>: once only, the loop over the defined pins, which stops at the
  first error.
\<close>

fun Enable_loop :: "(Pin \<times> ODroidCXAnalogModulePinDef) list \<Rightarrow> ODroidCXAnalogModule \<Rightarrow> sys \<Rightarrow> error option \<times> ODroidCXAnalogModule \<times> sys" where
  "Enable_loop [] module w = (None, module, w)"
| "Enable_loop ((p, d) # rest) module w =
     (let (e, w1) = AssignPin p (aname module) w in
      if e \<noteq> None then (e, module, w1)
      else
        let (e, module1, w2) = makeOpenAnalogPin module p w1 in
        if e \<noteq> None then (e, module1, w2)
        else Enable_loop rest module1 w2)"

definition AnalogEnable :: "ODroidCXAnalogModule \<Rightarrow> sys \<Rightarrow> error option \<times> ODroidCXAnalogModule \<times> sys" where
  "AnalogEnable module w =
     (if \<not> analogInitialised module
      then Enable_loop (adefinedPins module) (module\<lparr>analogInitialised := True\<rparr>) w
      else (None, module, w))"

definition analogClose :: "ODroidCXAnalogModuleOpenPin \<Rightarrow> sys \<Rightarrow> error option \<times> sys" where
  "analogClose op w = Close (avalueFile op) w"

text \<open>\<^verbatim>\<open>Disable\<close>: a loop over the defined pins, then one over the open pins; the result of each call is dropped.\<close>

fun Unassign_loop :: "(Pin \<times> ODroidCXAnalogModulePinDef) list \<Rightarrow> sys \<Rightarrow> sys" where
  "Unassign_loop [] w = w"
| "Unassign_loop ((p, d) # rest) w = Unassign_loop rest (snd (UnassignPin p w))"

fun Close_loop :: "(Pin \<times> ODroidCXAnalogModuleOpenPin) list \<Rightarrow> sys \<Rightarrow> sys" where
  "Close_loop [] w = w"
| "Close_loop ((p, openPin) # rest) w = Close_loop rest (snd (analogClose openPin w))"

definition AnalogDisable :: "ODroidCXAnalogModule \<Rightarrow> sys \<Rightarrow> error option \<times> ODroidCXAnalogModule \<times> sys" where
  "AnalogDisable module w =
     (None, module, Close_loop (aopenPins module) (Unassign_loop (adefinedPins module) w))"

text \<open>
  \<^verbatim>\<open>analogGetValue\<close>: the buffer has 5 bytes; \<^verbatim>\<open>b[:n-1]\<close> panics when
  \<open>n\<close> is 0 (the slice would end at -1).
\<close>

definition analogGetValue :: "ODroidCXAnalogModuleOpenPin \<Rightarrow> sys \<Rightarrow> (int \<times> error option) outcome" where
  "analogGetValue op w =
     (let (n, b, e) = ReadAt (avalueFile op) 5 0 w in
      if e \<noteq> None \<and> n = 0 then Returns (0, e)
      else if n = 0 then Panics
      else Returns (Atoi (take (n - 1) b)))"

definition AnalogRead :: "ODroidCXAnalogModule \<Rightarrow> Pin \<Rightarrow> sys \<Rightarrow> (int \<times> error option) outcome" where
  "AnalogRead module p w =
     (case map_of (aopenPins module) p of
        None \<Rightarrow> Returns (0, Some ErrAnalogNotOpened)
      | Some openPin \<Rightarrow> analogGetValue openPin w)"

subsection \<open>\<^verbatim>\<open>driver_odroid_cx.go\<close>: hardware detection\<close>

text \<open>
  Modelled from the spec: \<^verbatim>\<open>CpuInfo\<close> of \<^verbatim>\<open>hwio.go\<close>, which is not among
  the sources. The system-identification data holds key/value hardware properties per
  processor; \<^verbatim>\<open>CpuInfo(cpu, property)\<close> is the value of the property in the
  record of that processor, and the empty string when there is none.
\<close>

type_synonym cpuinfo = "(int \<times> (string \<times> string) list) list"

definition CpuInfo :: "cpuinfo \<Rightarrow> int \<Rightarrow> string \<Rightarrow> string" where
  "CpuInfo info cpu property =
     (case map_of info cpu of
        None \<Rightarrow> []
      | Some r \<Rightarrow> (case map_of r property of None \<Rightarrow> [] | Some v \<Rightarrow> v))"

definition MatchesHardwareConfig :: "cpuinfo \<Rightarrow> bool" where
  "MatchesHardwareConfig info =
     (let hw = CpuInfo info 3 ''Hardware'' in
      if hw = ''ODROIDC'' \<or> hw = ''ODROID-C2'' then True else False)"

definition BoardRevision :: "cpuinfo \<Rightarrow> int" where
  "BoardRevision info =
     (let hw = CpuInfo info 3 ''Hardware'' in
      if hw = ''ODROIDC'' then 1
      else if hw = ''ODROID-C2'' then 2
      else 1)"

text \<open>
  The spec's words for the record that identifies the board: the record of the
  highest-numbered processor.
\<close>

definition highest_processor :: "cpuinfo \<Rightarrow> int" where
  "highest_processor info = fold max (map fst info) 0"

subsection \<open>States of the system used in the statements\<close>

text \<open>
  A pin is exported when its control directory is present with its \<^verbatim>\<open>direction\<close>
  and \<^verbatim>\<open>value\<close> files.
\<close>

definition exported :: "string \<Rightarrow> sys \<Rightarrow> bool" where
  "exported s w =
     (gpio_node s \<in> dom (paths w) \<and> gpio_node s @ ''/direction'' \<in> dom (paths w) \<and>
      gpio_node s @ ''/value'' \<in> dom (paths w))"

text \<open>
  A board with the GPIO control files and two analog channels, whose device texts are
  the sample texts of the tests; a GPIO module configured with pin 7 on GPIO 83 and an
  analog module configured with pins 40 and 37 on channels 0 and 1 (the Odroid C1 table).
\<close>

definition ex_sys :: sys where
  "ex_sys =
     \<lparr>paths = [''/sys/class/gpio/export'' \<mapsto> [], ''/sys/class/gpio/unexport'' \<mapsto> [],
               ''/sys/class/saradc/saradc_ch0'' \<mapsto> [CHR ''1'', CHR 0x0A],
               ''/sys/class/saradc/saradc_ch1'' \<mapsto> [CHR ''1'', CHR ''0'', CHR ''0'', CHR ''0'', CHR 0x0A]],
      files = [], assignedPins = Map.empty, trace = []\<rparr>"

definition ex_gpio :: DTGPIOModule where
  "ex_gpio =
     \<lparr>name = ''gpio'', definedPins = [(7, \<lparr>def_pin = 7, def_gpioLogical = 83\<rparr>)], openPins = []\<rparr>"

definition ex_analog :: ODroidCXAnalogModule where
  "ex_analog =
     \<lparr>aname = ''analog'', analogInitialised = False,
      adefinedPins = [(40, \<lparr>adef_pin = 40, adef_analogLogical = 0\<rparr>),
                      (37, \<lparr>adef_pin = 37, adef_analogLogical = 1\<rparr>)],
      aopenPins = []\<rparr>"

text \<open>The module and the system after \<^verbatim>\<open>PinMode(7, Input)\<close> and after \<^verbatim>\<open>PinMode(7, Output)\<close>.\<close>

definition ex_gpio_in :: DTGPIOModule where
  "ex_gpio_in = fst (snd (PinMode ex_gpio 7 Input ex_sys))"

definition ex_sys_in :: sys where
  "ex_sys_in = snd (snd (PinMode ex_gpio 7 Input ex_sys))"

definition ex_gpio_out :: DTGPIOModule where
  "ex_gpio_out = fst (snd (PinMode ex_gpio 7 Output ex_sys))"

definition ex_sys_out :: sys where
  "ex_sys_out = snd (snd (PinMode ex_gpio 7 Output ex_sys))"

text \<open>The same input pin when its value file holds no data.\<close>

definition ex_sys_in_empty :: sys where
  "ex_sys_in_empty = ex_sys_in\<lparr>paths := (paths ex_sys_in)(''/sys/class/gpio/gpio83/value'' \<mapsto> [])\<rparr>"

text \<open>
  The text behind a file that can be read: the content of its path, for a file that is
  open and was opened read-only.
\<close>

definition device_text :: "osfile \<Rightarrow> sys \<Rightarrow> string option" where
  "device_text f w =
     (case checkValid f w of
        Inl e \<Rightarrow> None
      | Inr (h, fo) \<Rightarrow> if fflag fo = O_RDONLY then paths w (fpath fo) else None)"

text \<open>
  The spec's words for the analog sample: the decimal value of a text of digits.
\<close>

definition is_digit :: "char \<Rightarrow> bool" where
  "is_digit c = (48 \<le> (of_char c :: nat) \<and> (of_char c :: nat) \<le> 57)"

definition decimal_value :: "string \<Rightarrow> nat" where
  "decimal_value ds = foldl (\<lambda>a c. a * 10 + (of_char c - 48)) 0 ds"

text \<open>
  The analog module and the system after \<^verbatim>\<open>Enable\<close>, the same system with
  another device text on channel 0, and the system after \<^verbatim>\<open>Disable\<close>.
\<close>

definition ex_analog_on :: ODroidCXAnalogModule where
  "ex_analog_on = fst (snd (AnalogEnable ex_analog ex_sys))"

definition ex_sys_analog :: sys where
  "ex_sys_analog = snd (snd (AnalogEnable ex_analog ex_sys))"

definition with_text :: "string \<Rightarrow> sys \<Rightarrow> sys" where
  "with_text t w = w\<lparr>paths := (paths w)(''/sys/class/saradc/saradc_ch0'' \<mapsto> t)\<rparr>"

definition ex_sys_analog_off :: sys where
  "ex_sys_analog_off = snd (snd (AnalogDisable ex_analog_on ex_sys_analog))"

text \<open>
  A system without the GPIO control files, and the module and the system after
  \<^verbatim>\<open>PinMode(7, Output)\<close> has failed there.
\<close>

definition ex_sys_bare :: sys where
  "ex_sys_bare = \<lparr>paths = Map.empty, files = [], assignedPins = Map.empty, trace = []\<rparr>"

definition ex_gpio_failed :: DTGPIOModule where
  "ex_gpio_failed = fst (snd (PinMode ex_gpio 7 Output ex_sys_bare))"

definition ex_sys_failed :: sys where
  "ex_sys_failed = snd (snd (PinMode ex_gpio 7 Output ex_sys_bare))"


text \<open>
  System-identification data of an Odroid C1 and of an Odroid C2 with four processors,
  and of an Odroid C1 that lists two processors: the board's properties are in the
  record of the last processor listed.
\<close>

definition ex_cpuinfo_c1 :: cpuinfo where
  "ex_cpuinfo_c1 =
     [(0, [(''processor'', ''0'')]), (1, [(''processor'', ''1'')]), (2, [(''processor'', ''2'')]),
      (3, [(''processor'', ''3''), (''Hardware'', ''ODROIDC'')])]"

definition ex_cpuinfo_c2 :: cpuinfo where
  "ex_cpuinfo_c2 =
     [(0, [(''processor'', ''0'')]), (1, [(''processor'', ''1'')]), (2, [(''processor'', ''2'')]),
      (3, [(''processor'', ''3''), (''Hardware'', ''ODROID-C2'')])]"

definition ex_cpuinfo_two :: cpuinfo where
  "ex_cpuinfo_two =
     [(0, [(''processor'', ''0'')]), (1, [(''processor'', ''1''), (''Hardware'', ''ODROIDC'')])]"


section \<open>Properties\<close>

subsection \<open>Evaluation of the example states\<close>

lemmas eval_defs =
  PinMode_def hwio_ClosePin_def ClosePin_def AssignPin_def UnassignPin_def emit_def
  makeOpenGPIOPin_def gpioExport_def gpioUnexport_def gpioDirection_def fileExists_def
  WriteStringToFile_def sysfs_write_def gpio_node_def Itoa_def FormatInt_def formatBits.simps
  digit_char_def OpenFile_def Close_def checkValid_def Let_def

lemma ex_in_eval:
  "PinMode ex_gpio 7 Input ex_sys = (None, ex_gpio_in, ex_sys_in)"
  "ex_gpio_in =
     \<lparr>name = ''gpio'', definedPins = [(7, \<lparr>def_pin = 7, def_gpioLogical = 83\<rparr>)],
      openPins = [(7, \<lparr>pin = 7, gpioLogical = 83, gpioBaseName = ''/sys/class/gpio/gpio83'',
                        mode = Input, valueFile = Some 0\<rparr>)]\<rparr>"
  "files ex_sys_in =
     [\<lparr>fpath = ''/sys/class/gpio/gpio83/value'', fflag = O_RDONLY, fpos = 0, fclosed = False\<rparr>]"
  "assignedPins ex_sys_in 7 = Some ''gpio''"
  "paths ex_sys_in ''/sys/class/gpio/gpio83/value'' = Some [CHR ''0'', CHR 0x0A]"
  "paths ex_sys_in ''/sys/class/gpio/gpio83/direction'' = Some ''in''"
  "paths ex_sys_in ''/sys/class/gpio/gpio83'' = Some []"
  "paths ex_sys_in ''/sys/class/gpio/export'' = Some []"
  "paths ex_sys_in ''/sys/class/gpio/unexport'' = Some []"
  "trace ex_sys_in =
     [EvAssignPin 7 ''gpio'', EvWriteStringToFile ''/sys/class/gpio/export'' ''83'',
      EvWriteStringToFile ''/sys/class/gpio/gpio83/direction'' ''in'',
      EvOpenFile ''/sys/class/gpio/gpio83/value'' O_RDONLY]"
  by (simp_all add: ex_gpio_in_def ex_sys_in_def ex_gpio_def ex_sys_def eval_defs)

lemma ex_out_eval:
  "PinMode ex_gpio 7 Output ex_sys = (None, ex_gpio_out, ex_sys_out)"
  "ex_gpio_out =
     \<lparr>name = ''gpio'', definedPins = [(7, \<lparr>def_pin = 7, def_gpioLogical = 83\<rparr>)],
      openPins = [(7, \<lparr>pin = 7, gpioLogical = 83, gpioBaseName = ''/sys/class/gpio/gpio83'',
                        mode = Output, valueFile = Some 0\<rparr>)]\<rparr>"
  "files ex_sys_out =
     [\<lparr>fpath = ''/sys/class/gpio/gpio83/value'', fflag = O_WRONLY_TRUNC, fpos = 0, fclosed = False\<rparr>]"
  "assignedPins ex_sys_out 7 = Some ''gpio''"
  "paths ex_sys_out ''/sys/class/gpio/gpio83/value'' = Some []"
  "paths ex_sys_out ''/sys/class/gpio/gpio83/direction'' = Some ''out''"
  "paths ex_sys_out ''/sys/class/gpio/gpio83'' = Some []"
  "paths ex_sys_out ''/sys/class/gpio/export'' = Some []"
  "paths ex_sys_out ''/sys/class/gpio/unexport'' = Some []"
  "trace ex_sys_out =
     [EvAssignPin 7 ''gpio'', EvWriteStringToFile ''/sys/class/gpio/export'' ''83'',
      EvWriteStringToFile ''/sys/class/gpio/gpio83/direction'' ''out'',
      EvOpenFile ''/sys/class/gpio/gpio83/value'' O_WRONLY_TRUNC]"
  by (simp_all add: ex_gpio_out_def ex_sys_out_def ex_gpio_def ex_sys_def eval_defs)

subsection \<open>Reading a digital pin\<close>

lemma ReadAt_bounds:
  "ReadAt f k off w = (n, b, e) \<Longrightarrow> n = length b \<and> n \<le> k \<and> (n < k \<longrightarrow> e \<noteq> None)"
  by (auto simp: ReadAt_def Let_def split: sum.splits prod.splits if_splits option.splits)

text \<open>
  C4, as the code has it. \<^verbatim>\<open>DigitalRead\<close> fails when the pin has no open-pin
  object. Otherwise it reads at most one byte at offset 0 of the value file; the value
  is high exactly when one byte was read and it is the character '1', and low for any
  other byte and for a read of no byte. The error of the read is returned beside the
  value, unchanged: \<^verbatim>\<open>DigitalRead\<close> adds no error of its own, but a read of no byte
  always carries the error of \<^verbatim>\<open>ReadAt\<close> (\<^verbatim>\<open>io.EOF\<close> at the end of the file).
\<close>

theorem DigitalRead_value_and_error:
  "(map_of (openPins m) p = None \<longrightarrow> DigitalRead m p w = (0, Some ErrReadNotOpened)) \<and>
   (\<forall>op n b e. map_of (openPins m) p = Some op \<and> ReadAt (valueFile op) 1 0 w = (n, b, e) \<longrightarrow>
      n \<le> 1 \<and>
      DigitalRead m p w = (if n = 1 \<and> b ! 0 = CHR ''1'' then High else Low, e) \<and>
      (n = 0 \<longrightarrow> e \<noteq> None))"
proof -
  have a: "map_of (openPins m) p = None \<longrightarrow> DigitalRead m p w = (0, Some ErrReadNotOpened)"
    by (simp add: DigitalRead_def)
  have b: "n \<le> 1 \<and>
      DigitalRead m p w = (if n = 1 \<and> b ! 0 = CHR ''1'' then High else Low, e) \<and>
      (n = 0 \<longrightarrow> e \<noteq> None)"
    if h1: "map_of (openPins m) p = Some op" and h2: "ReadAt (valueFile op) 1 0 w = (n, b, e)"
    for op n b e
  proof -
    have bnd: "n = length b \<and> n \<le> 1 \<and> (n < 1 \<longrightarrow> e \<noteq> None)"
      using ReadAt_bounds[OF h2] .
    have "DigitalRead m p w = (if n = 1 \<and> b ! 0 = CHR ''1'' then High else Low, e)"
    proof (cases "n = 0")
      case True
      with h1 h2 show ?thesis by (simp add: DigitalRead_def gpioGetValue_def Low_def)
    next
      case False
      with bnd have "n = 1" by arith
      with h1 h2 show ?thesis by (simp add: DigitalRead_def gpioGetValue_def)
    qed
    with bnd show ?thesis by simp
  qed
  from a b show ?thesis by blast
qed

text \<open>
  The theorem at the input pin 7 of the example: the value file holds "0" and a newline,
  one byte is read, and the result is low with no error; the pin 8 has no open-pin object.
\<close>

theorem DigitalRead_value_and_error_witness:
  "map_of (openPins ex_gpio_in) 8 = None \<and>
   DigitalRead ex_gpio_in 8 ex_sys_in = (0, Some ErrReadNotOpened) \<and>
   ReadAt (Some 0) 1 0 ex_sys_in = (1, ''0'', None) \<and>
   DigitalRead ex_gpio_in 7 ex_sys_in = (Low, None)"
proof -
  have r: "ReadAt (Some 0) 1 0 ex_sys_in = (1, ''0'', None)"
    by (simp add: ReadAt_def checkValid_def ex_in_eval)
  have o: "map_of (openPins ex_gpio_in) 7 =
      Some \<lparr>pin = 7, gpioLogical = 83, gpioBaseName = ''/sys/class/gpio/gpio83'',
            mode = Input, valueFile = Some 0\<rparr>"
    by (simp add: ex_in_eval)
  have n: "map_of (openPins ex_gpio_in) 8 = None"
    by (simp add: ex_in_eval)
  show ?thesis
    using DigitalRead_value_and_error[of ex_gpio_in 8 ex_sys_in]
      DigitalRead_value_and_error[of ex_gpio_in 7 ex_sys_in] r o n
    by simp
qed

text \<open>
  C4 as stated fails: when the value file holds no data the read has length 0, and
  \<^verbatim>\<open>DigitalRead\<close> returns low together with the error \<^verbatim>\<open>io.EOF\<close>.
\<close>

theorem DigitalRead_zero_length_counterexample:
  "fst (ReadAt (Some 0) 1 0 ex_sys_in_empty) = 0 \<and>
   DigitalRead ex_gpio_in 7 ex_sys_in_empty = (Low, Some EOF)"
  by (simp add: DigitalRead_def gpioGetValue_def ReadAt_def checkValid_def ex_sys_in_empty_def
      ex_in_eval Low_def)

subsection \<open>The steps of \<^verbatim>\<open>PinMode\<close>\<close>

lemma node_ne_ctl [simp]:
  "gpio_node s \<noteq> ''/sys/class/gpio/export''" "gpio_node s \<noteq> ''/sys/class/gpio/unexport''"
  "gpio_node s @ t \<noteq> ''/sys/class/gpio/export''" "gpio_node s @ t \<noteq> ''/sys/class/gpio/unexport''"
  "''/sys/class/gpio/export'' \<noteq> gpio_node s @ t" "''/sys/class/gpio/unexport'' \<noteq> gpio_node s @ t"
  "''/sys/class/gpio/export'' \<noteq> gpio_node s" "''/sys/class/gpio/unexport'' \<noteq> gpio_node s"
  by (simp_all add: gpio_node_def)

lemma node_files_distinct [simp]:
  "gpio_node s @ ''/direction'' \<noteq> gpio_node s @ ''/value''"
  "gpio_node s @ ''/value'' \<noteq> gpio_node s @ ''/direction''"
  "gpio_node s \<noteq> gpio_node s @ ''/value''"
  "gpio_node s \<noteq> gpio_node s @ ''/direction''"
  "gpio_node s @ ''/value'' \<noteq> gpio_node s"
  "gpio_node s @ ''/direction'' \<noteq> gpio_node s"
  by simp_all

lemma base_name: "''/sys/class/gpio/gpio'' @ Itoa i = gpio_node (FormatInt i)"
  by (simp add: gpio_node_def Itoa_def)



lemma sysfs_write_plain:
  "gpio_node s @ t \<in> dom fs \<Longrightarrow>
   sysfs_write (gpio_node s @ t) v fs = Inr (fs(gpio_node s @ t \<mapsto> v))"
  by (auto simp: sysfs_write_def)





lemma AssignPin_own:
  "assignedPins w p = Some nm \<Longrightarrow>
   AssignPin p nm w = (None, w\<lparr>trace := trace w @ [EvAssignPin p nm]\<rparr>)"
  by (simp add: AssignPin_def emit_def Let_def)


lemma gpioExport_present:
  assumes a: "gpio_node (FormatInt (gpioLogical op)) \<in> dom (paths w)"
  shows "gpioExport op w = (None, op\<lparr>gpioBaseName := gpio_node (FormatInt (gpioLogical op))\<rparr>, w)"
  unfolding gpioExport_def base_name
  using a by (auto simp: fileExists_def Let_def)


lemma gpioDirection_ok:
  "gpioBaseName op = gpio_node s \<Longrightarrow> exported s w \<Longrightarrow> dir = ''in'' \<or> dir = ''out'' \<Longrightarrow>
   gpioDirection op dir w =
     (None, op\<lparr>valueFile := Some (length (files w))\<rparr>,
      w\<lparr>paths := (if dir = ''in'' then (paths w)(gpio_node s @ ''/direction'' \<mapsto> dir)
                   else (paths w)(gpio_node s @ ''/direction'' \<mapsto> dir, gpio_node s @ ''/value'' \<mapsto> [])),
         files := files w @ [\<lparr>fpath = gpio_node s @ ''/value'',
                               fflag = (if dir = ''in'' then O_RDONLY else O_WRONLY_TRUNC),
                               fpos = 0, fclosed = False\<rparr>],
         trace := trace w @ [EvWriteStringToFile (gpio_node s @ ''/direction'') dir,
                             EvOpenFile (gpio_node s @ ''/value'')
                               (if dir = ''in'' then O_RDONLY else O_WRONLY_TRUNC)]\<rparr>)"
  by (auto simp: gpioDirection_def exported_def WriteStringToFile_def emit_def sysfs_write_plain
      OpenFile_def Let_def)

subsection \<open>Setting the mode a pin already has\<close>

text \<open>
  C10. The pin is open in the mode \<open>md\<close>, the registry names the module as its owner and
  the pin is exported. \<^verbatim>\<open>PinMode\<close> with the same mode succeeds, and the calls it
  makes are the assignment (which leaves the registry as it is), the write to the
  \<^verbatim>\<open>direction\<close> file and the opening of the \<^verbatim>\<open>value\<close> file: nothing is
  unexported, closed, unassigned or exported. The table then holds a new open-pin object
  for the pin, built from the pin's definition, whose value file is the file just opened.
  The table of files is the old one with the new file appended: the file the old object
  held is as it was, never closed.
\<close>

theorem PinMode_same_mode:
  assumes d: "map_of (definedPins m) p = Some d"
    and o: "map_of (openPins m) p = Some old"
    and md: "mode old = md"
    and own: "assignedPins w p = Some (name m)"
    and ex: "exported (FormatInt (def_gpioLogical d)) w"
  shows "\<exists>m' w'. PinMode m p md w = (None, m', w') \<and>
      trace w' = trace w @
        [EvAssignPin p (name m),
         EvWriteStringToFile (gpio_node (FormatInt (def_gpioLogical d)) @ ''/direction'')
           (if md = Output then ''out'' else ''in''),
         EvOpenFile (gpio_node (FormatInt (def_gpioLogical d)) @ ''/value'')
           (if md = Output then O_WRONLY_TRUNC else O_RDONLY)] \<and>
      map_of (openPins m') p =
        Some \<lparr>pin = p, gpioLogical = def_gpioLogical d,
              gpioBaseName = gpio_node (FormatInt (def_gpioLogical d)),
              mode = md, valueFile = Some (length (files w))\<rparr> \<and>
      files w' = files w @
        [\<lparr>fpath = gpio_node (FormatInt (def_gpioLogical d)) @ ''/value'',
          fflag = (if md = Output then O_WRONLY_TRUNC else O_RDONLY), fpos = 0, fclosed = False\<rparr>] \<and>
      assignedPins w' = assignedPins w"
proof -
  let ?s = "FormatInt (def_gpioLogical d)"
  let ?n = "gpio_node ?s"
  let ?w1 = "w\<lparr>trace := trace w @ [EvAssignPin p (name m)]\<rparr>"
  have s1: "AssignPin p (name m) w = (None, ?w1)"
    using AssignPin_own[OF own] .
  let ?op = "\<lparr>pin = p, gpioLogical = def_gpioLogical d, gpioBaseName = [], mode = Input,
              valueFile = None\<rparr>"
  let ?m2 = "m\<lparr>openPins := AList.update p ?op (openPins m)\<rparr>"
  have s2: "makeOpenGPIOPin m p = (Inr ?op, ?m2)"
    using d by (simp add: makeOpenGPIOPin_def Let_def)
  have s3: "gpioExport ?op ?w1 = (None, ?op\<lparr>gpioBaseName := ?n\<rparr>, ?w1)"
    using gpioExport_present[of ?op ?w1] ex by (simp add: exported_def)
  have ex1: "exported ?s ?w1"
    using ex by (simp add: exported_def)
  note s4 = gpioDirection_ok[of "?op\<lparr>gpioBaseName := ?n\<rparr>" ?s ?w1, OF _ ex1]
  show ?thesis
    using d o md s1 s2 s3 s4
    by (simp add: PinMode_def Let_def update_conv)
qed

text \<open>
  The theorem at the output pin 7 of the example, set to output again: the file 0 that
  the old object held stays open, and the new object holds the file 1.
\<close>

theorem PinMode_same_mode_witness:
  "\<exists>m' w'. PinMode ex_gpio_out 7 Output ex_sys_out = (None, m', w') \<and>
      trace w' = trace ex_sys_out @
        [EvAssignPin 7 ''gpio'',
         EvWriteStringToFile ''/sys/class/gpio/gpio83/direction'' ''out'',
         EvOpenFile ''/sys/class/gpio/gpio83/value'' O_WRONLY_TRUNC] \<and>
      map_of (openPins m') 7 =
        Some \<lparr>pin = 7, gpioLogical = 83, gpioBaseName = ''/sys/class/gpio/gpio83'',
              mode = Output, valueFile = Some 1\<rparr> \<and>
      files w' =
        [\<lparr>fpath = ''/sys/class/gpio/gpio83/value'', fflag = O_WRONLY_TRUNC, fpos = 0, fclosed = False\<rparr>,
         \<lparr>fpath = ''/sys/class/gpio/gpio83/value'', fflag = O_WRONLY_TRUNC, fpos = 0, fclosed = False\<rparr>] \<and>
      assignedPins w' = assignedPins ex_sys_out"
proof -
  have s: "FormatInt 83 = ''83''"
    by (simp add: FormatInt_def formatBits.simps digit_char_def)
  have ex: "exported (FormatInt 83) ex_sys_out"
    by (simp add: s exported_def gpio_node_def domIff ex_out_eval)
  show ?thesis
    using PinMode_same_mode[of ex_gpio_out 7 "\<lparr>def_pin = 7, def_gpioLogical = 83\<rparr>"
        "\<lparr>pin = 7, gpioLogical = 83, gpioBaseName = ''/sys/class/gpio/gpio83'',
          mode = Output, valueFile = Some 0\<rparr>" Output ex_sys_out] ex
    by (simp add: s gpio_node_def ex_out_eval)
qed

subsection \<open>Switching the mode of an open pin\<close>






subsection \<open>Reading an analog pin\<close>

lemmas analog_eval_defs =
  AnalogEnable_def makeOpenAnalogPin_def analogOpen_def AssignPin_def emit_def OpenFile_def
  Itoa_def FormatInt_def formatBits.simps digit_char_def Let_def

lemma ex_analog_eval:
  "AnalogEnable ex_analog ex_sys = (None, ex_analog_on, ex_sys_analog)"
  "ex_analog_on =
     \<lparr>aname = ''analog'', analogInitialised = True,
      adefinedPins = [(40, \<lparr>adef_pin = 40, adef_analogLogical = 0\<rparr>),
                      (37, \<lparr>adef_pin = 37, adef_analogLogical = 1\<rparr>)],
      aopenPins = [(40, \<lparr>apin = 40, analogLogical = 0, analogFile = ''/sys/class/saradc/saradc_ch0'',
                          avalueFile = Some 0\<rparr>),
                   (37, \<lparr>apin = 37, analogLogical = 1, analogFile = ''/sys/class/saradc/saradc_ch1'',
                          avalueFile = Some 1\<rparr>)]\<rparr>"
  "files ex_sys_analog =
     [\<lparr>fpath = ''/sys/class/saradc/saradc_ch0'', fflag = O_RDONLY, fpos = 0, fclosed = False\<rparr>,
      \<lparr>fpath = ''/sys/class/saradc/saradc_ch1'', fflag = O_RDONLY, fpos = 0, fclosed = False\<rparr>]"
  "assignedPins ex_sys_analog 40 = Some ''analog''"
  "assignedPins ex_sys_analog 37 = Some ''analog''"
  "paths ex_sys_analog ''/sys/class/saradc/saradc_ch0'' = Some [CHR ''1'', CHR 0x0A]"
  "paths ex_sys_analog ''/sys/class/saradc/saradc_ch1'' = Some [CHR ''1'', CHR ''0'', CHR ''0'', CHR ''0'', CHR 0x0A]"
  by (simp_all add: ex_analog_on_def ex_sys_analog_def ex_analog_def ex_sys_def analog_eval_defs)

lemma ReadAt_text:
  "device_text f w = Some c \<Longrightarrow>
   ReadAt f k 0 w = (length (take k c), take k c, if length (take k c) < k then Some EOF else None)"
  by (auto simp: device_text_def ReadAt_def Let_def split: sum.splits if_splits)

lemma shift_byte: "48 \<le> x \<Longrightarrow> x < 256 \<Longrightarrow> ((x::nat) + 208) mod 256 = x - 48"
proof -
  assume a: "48 \<le> x" and b: "x < 256"
  have "x + 208 = (x - 48) + 256" using a by simp
  then have "(x + 208) mod 256 = (x - 48) mod 256" by (simp only: mod_add_self2)
  also have "\<dots> = x - 48" using b by simp
  finally show ?thesis .
qed

lemma digit_byte: "is_digit c \<Longrightarrow> ((of_char c :: nat) + 208) mod 256 = of_char c - 48"
  by (simp add: is_digit_def shift_byte)

lemma digit_byte_le: "is_digit c \<Longrightarrow> \<not> 9 < (of_char c :: nat) - 48"
  unfolding is_digit_def by linarith

lemma nondigit_byte: "\<not> is_digit c \<Longrightarrow> ((of_char c :: nat) + 208) mod 256 > 9"
proof (cases "(of_char c :: nat) < 48")
  case True
  then have "((of_char c :: nat) + 208) mod 256 = of_char c + 208" by simp
  then show ?thesis by simp
next
  case False
  assume "\<not> is_digit c"
  with False have g: "(of_char c :: nat) > 57" by (simp add: is_digit_def)
  from False have "((of_char c :: nat) + 208) mod 256 = of_char c - 48"
    by (simp add: shift_byte)
  with g show ?thesis by simp
qed

lemma atoi_loop_digits:
  "list_all is_digit s \<Longrightarrow>
   atoi_loop n s = Some (foldl (\<lambda>a c. a * 10 + (of_char c - 48)) n s)"
  by (induction s arbitrary: n) (simp_all add: digit_byte digit_byte_le Let_def)

lemma atoi_loop_bound:
  "atoi_loop n s = Some r \<Longrightarrow> r < (n + 1) * 10 ^ length s"
proof (induction s arbitrary: n)
  case Nil
  then show ?case by simp
next
  case (Cons c s)
  let ?d = "((of_char c :: nat) + 208) mod 256"
  from Cons.prems have d: "?d \<le> 9" and r: "atoi_loop (n * 10 + ?d) s = Some r"
    by (auto simp: Let_def split: if_splits)
  from Cons.IH[OF r] have "r < (n * 10 + ?d + 1) * 10 ^ length s" .
  also have "\<dots> \<le> (n * 10 + 10) * 10 ^ length s"
    using d by (intro mult_le_mono1) simp
  also have "\<dots> = (n + 1) * 10 ^ length (c # s)"
    by (simp add: algebra_simps)
  finally show ?case .
qed

lemma Atoi_digits:
  "ds \<noteq> [] \<Longrightarrow> list_all is_digit ds \<Longrightarrow> Atoi ds = (int (decimal_value ds), None)"
proof -
  assume ne: "ds \<noteq> []" and dg: "list_all is_digit ds"
  then have "is_digit (hd ds)" by (cases ds) simp_all
  then have sg: "hd ds \<noteq> CHR ''-'' \<and> hd ds \<noteq> CHR ''+''"
    by (auto simp: is_digit_def)
  show ?thesis
    using ne sg atoi_loop_digits[OF dg, of 0]
    by (simp add: Atoi_def decimal_value_def)
qed

lemma atoi_loop_nodigit:
  "s \<noteq> [] \<Longrightarrow> \<not> is_digit (hd s) \<Longrightarrow> atoi_loop n s = None"
  by (cases s) (simp_all add: Let_def nondigit_byte)

lemma Atoi_nodigit:
  assumes "\<forall>c\<in>set s. \<not> is_digit c"
  shows "Atoi s = (0, Some (ErrSyntax s))"
proof (cases s)
  case Nil
  then show ?thesis by (simp add: Atoi_def)
next
  case (Cons c t)
  show ?thesis
  proof (cases "t = []")
    case True
    have "atoi_loop 0 [c] = None"
      using assms Cons by (intro atoi_loop_nodigit) auto
    with Cons True show ?thesis
      by (simp add: Atoi_def Let_def del: atoi_loop.simps)
  next
    case False
    then have "\<not> is_digit (hd t)" using assms Cons by (cases t) auto
    with False have "atoi_loop 0 t = None" by (rule atoi_loop_nodigit)
    moreover have "atoi_loop 0 (c # t) = None"
      using assms Cons by (intro atoi_loop_nodigit) auto
    ultimately show ?thesis using Cons False
      by (auto simp: Atoi_def Let_def simp del: atoi_loop.simps)
  qed
qed

lemma Atoi_bound: "\<bar>fst (Atoi s)\<bar> < 10 ^ length s"
proof -
  let ?u = "if hd s = CHR ''-'' \<or> hd s = CHR ''+'' then tl s else s"
  have lu: "length ?u \<le> length s" by simp
  show ?thesis
  proof (cases "atoi_loop 0 ?u")
    case None
    then show ?thesis by (simp add: Atoi_def Let_def)
  next
    case (Some r)
    from atoi_loop_bound[OF Some] have "r < 10 ^ length ?u" by simp
    also have "\<dots> \<le> 10 ^ length s" using lu by (intro power_increasing) simp_all
    finally have "int r < int (10 ^ length s)" by simp
    then have "int r < 10 ^ length s" by simp
    then show ?thesis using Some by (simp add: Atoi_def Let_def)
  qed
qed

lemma analogGetValue_text:
  assumes t: "device_text (avalueFile op) w = Some text" and ne: "text \<noteq> []"
  shows "analogGetValue op w = Returns (Atoi (take (min 5 (length text) - 1) text))"
proof -
  have n: "length (take 5 text) \<noteq> 0" using ne by simp
  have tk: "take (length (take 5 text) - 1) (take 5 text) = take (min 5 (length text) - 1) text"
    by (auto simp: min_def)
  show ?thesis
    unfolding analogGetValue_def ReadAt_text[OF t]
    using n tk by (simp add: Let_def min.commute)
qed

text \<open>
  C9. The buffer has 5 bytes, and the last byte read is dropped before the text is
  parsed, whatever it is: for a pin with an open analog file behind which the device
  text is not empty, \<^verbatim>\<open>AnalogRead\<close> returns what \<^verbatim>\<open>strconv.Atoi\<close> makes
  of the bytes read but the last. For a device text of 5 or more characters these are
  the first 4 characters, and the value returned is below 10000 in absolute value: a
  sample with more than 4 digits is not returned exactly.
\<close>

theorem AnalogRead_drops_last_byte:
  assumes o: "map_of (aopenPins m) p = Some op"
    and t: "device_text (avalueFile op) w = Some text"
    and ne: "text \<noteq> []"
  shows "AnalogRead m p w = Returns (Atoi (take (min 5 (length text) - 1) text)) \<and>
    (5 \<le> length text \<longrightarrow>
       AnalogRead m p w = Returns (Atoi (take 4 text)) \<and> \<bar>fst (Atoi (take 4 text))\<bar> < 10000)"
proof -
  have a: "AnalogRead m p w = Returns (Atoi (take (min 5 (length text) - 1) text))"
    using o analogGetValue_text[OF t ne] by (simp add: AnalogRead_def)
  have b: "\<bar>fst (Atoi (take 4 text))\<bar> < 10000" if "5 \<le> length text"
    using Atoi_bound[of "take 4 text"] that by (simp add: min_def)
  show ?thesis using a b by (auto simp: min_def)
qed

lemma ex_text: "device_text (Some 0) (with_text t ex_sys_analog) = Some t"
  by (simp add: device_text_def checkValid_def with_text_def ex_analog_eval)

text \<open>The theorem at the device text "12345": the result is 1234.\<close>

theorem AnalogRead_drops_last_byte_witness:
  "AnalogRead ex_analog_on 40 (with_text ''12345'' ex_sys_analog) = Returns (1234, None)"
proof -
  have o: "map_of (aopenPins ex_analog_on) 40 =
      Some \<lparr>apin = 40, analogLogical = 0, analogFile = ''/sys/class/saradc/saradc_ch0'',
            avalueFile = Some 0\<rparr>"
    by (simp add: ex_analog_eval)
  have t: "device_text (avalueFile \<lparr>apin = 40, analogLogical = 0,
      analogFile = ''/sys/class/saradc/saradc_ch0'', avalueFile = Some 0\<rparr>)
      (with_text ''12345'' ex_sys_analog) = Some ''12345''"
    by (simp add: ex_text)
  have a: "Atoi ''1234'' = (1234, None)"
    by (simp add: Atoi_def Let_def)
  show ?thesis
    using AnalogRead_drops_last_byte[OF o t] a by simp
qed

text \<open>
  C3, as the code has it. For a pin with an open-pin object: when the device text is one
  to four digits followed by one more byte (the terminator), \<^verbatim>\<open>AnalogRead\<close>
  returns the decimal value of the digits and no error; when the device text is not
  empty and the 5 bytes read hold no digit, it fails with the syntax error of
  \<^verbatim>\<open>strconv.Atoi\<close>; when the read returns no byte and an error, it returns that
  error unchanged.
\<close>

theorem AnalogRead_decimal:
  assumes o: "map_of (aopenPins m) p = Some op"
  shows "(\<forall>ds t. device_text (avalueFile op) w = Some (ds @ [t]) \<and> ds \<noteq> [] \<and> length ds \<le> 4 \<and>
            list_all is_digit ds \<longrightarrow>
            AnalogRead m p w = Returns (int (decimal_value ds), None)) \<and>
    (\<forall>text. device_text (avalueFile op) w = Some text \<and> text \<noteq> [] \<and>
            (\<forall>c\<in>set (take 5 text). \<not> is_digit c) \<longrightarrow>
            (\<exists>s. AnalogRead m p w = Returns (0, Some (ErrSyntax s)))) \<and>
    (\<forall>b e. ReadAt (avalueFile op) 5 0 w = (0, b, Some e) \<longrightarrow>
            AnalogRead m p w = Returns (0, Some e))"
proof -
  have a: "AnalogRead m p w = Returns (int (decimal_value ds), None)"
    if t: "device_text (avalueFile op) w = Some (ds @ [t])" and ne: "ds \<noteq> []"
      and l: "length ds \<le> 4" and dg: "list_all is_digit ds" for ds t
  proof -
    have "analogGetValue op w = Returns (Atoi (take (min 5 (length (ds @ [t])) - 1) (ds @ [t])))"
      using analogGetValue_text[OF t] by simp
    moreover have "take (min 5 (length (ds @ [t])) - 1) (ds @ [t]) = ds"
      using l by (simp add: min_def)
    ultimately show ?thesis
      using o Atoi_digits[OF ne dg] by (simp add: AnalogRead_def)
  qed
  have b: "\<exists>s. AnalogRead m p w = Returns (0, Some (ErrSyntax s))"
    if t: "device_text (avalueFile op) w = Some dt" and ne: "dt \<noteq> []"
      and nd: "\<forall>c\<in>set (take 5 dt). \<not> is_digit c" for dt
  proof -
    let ?s = "take (min 5 (length dt) - 1) dt"
    have "min 5 (length dt) - 1 \<le> 5" by simp
    then have "set ?s \<subseteq> set (take 5 dt)"
      by (rule set_take_subset_set_take)
    with nd have "\<forall>c\<in>set ?s. \<not> is_digit c" by blast
    then have "Atoi ?s = (0, Some (ErrSyntax ?s))" by (rule Atoi_nodigit)
    then show ?thesis
      using o analogGetValue_text[OF t ne] by (simp add: AnalogRead_def)
  qed
  have c: "AnalogRead m p w = Returns (0, Some e)"
    if "ReadAt (avalueFile op) 5 0 w = (0, b, Some e)" for b e
    using o that by (simp add: AnalogRead_def analogGetValue_def)
  from a b c show ?thesis by blast
qed

lemma ex_off_eval:
  "files ex_sys_analog_off =
     [\<lparr>fpath = ''/sys/class/saradc/saradc_ch0'', fflag = O_RDONLY, fpos = 0, fclosed = True\<rparr>,
      \<lparr>fpath = ''/sys/class/saradc/saradc_ch1'', fflag = O_RDONLY, fpos = 0, fclosed = True\<rparr>]"
  "assignedPins ex_sys_analog_off 40 = None"
  "assignedPins ex_sys_analog_off 37 = None"
  by (simp_all add: ex_sys_analog_off_def AnalogDisable_def analogClose_def Close_def checkValid_def
      UnassignPin_def emit_def Let_def ex_analog_eval)

text \<open>
  The theorem at the example: the sample texts of the tests give 1 and 1000, the text
  "abc" with a newline gives a syntax error, and after \<^verbatim>\<open>Disable\<close> the read of
  the closed file fails and its error is returned.
\<close>

theorem AnalogRead_decimal_witness:
  "AnalogRead ex_analog_on 40 ex_sys_analog = Returns (1, None) \<and>
   AnalogRead ex_analog_on 37 ex_sys_analog = Returns (1000, None) \<and>
   (\<exists>s. AnalogRead ex_analog_on 40 (with_text ''abc\<newline>'' ex_sys_analog) = Returns (0, Some (ErrSyntax s))) \<and>
   AnalogRead ex_analog_on 40 ex_sys_analog_off = Returns (0, Some ErrClosed)"
proof -
  let ?op40 = "\<lparr>apin = 40, analogLogical = 0, analogFile = ''/sys/class/saradc/saradc_ch0'',
                avalueFile = Some 0\<rparr>"
  let ?op37 = "\<lparr>apin = 37, analogLogical = 1, analogFile = ''/sys/class/saradc/saradc_ch1'',
                avalueFile = Some 1\<rparr>"
  have o40: "map_of (aopenPins ex_analog_on) 40 = Some ?op40"
    and o37: "map_of (aopenPins ex_analog_on) 37 = Some ?op37"
    by (simp_all add: ex_analog_eval)
  have t40: "device_text (avalueFile ?op40) ex_sys_analog = Some (''1'' @ [CHR 0x0A])"
    and t37: "device_text (avalueFile ?op37) ex_sys_analog = Some (''1000'' @ [CHR 0x0A])"
    and tabc: "device_text (avalueFile ?op40) (with_text ''abc\<newline>'' ex_sys_analog) = Some ''abc\<newline>''"
    by (simp_all add: device_text_def checkValid_def with_text_def ex_analog_eval)
  have d: "list_all is_digit ''1''" "list_all is_digit ''1000''"
    "\<forall>c\<in>set (take 5 ''abc\<newline>''). \<not> is_digit c"
    by (simp_all add: is_digit_def)
  have v: "decimal_value ''1'' = 1" "decimal_value ''1000'' = 1000"
    by (simp_all add: decimal_value_def)
  have r: "ReadAt (avalueFile ?op40) 5 0 ex_sys_analog_off = (0, [], Some ErrClosed)"
    by (simp add: ReadAt_def checkValid_def ex_off_eval)
  note T40 = AnalogRead_decimal[OF o40]
  note T37 = AnalogRead_decimal[OF o37, of ex_sys_analog]
  have a: "AnalogRead ex_analog_on 40 ex_sys_analog = Returns (1, None)"
    using T40[of ex_sys_analog] t40 d v by auto
  have b: "AnalogRead ex_analog_on 37 ex_sys_analog = Returns (1000, None)"
    using T37 t37 d v by auto
  have c: "\<exists>s. AnalogRead ex_analog_on 40 (with_text ''abc\<newline>'' ex_sys_analog) = Returns (0, Some (ErrSyntax s))"
    using T40[of "with_text ''abc\<newline>'' ex_sys_analog"] tabc d(3) by blast
  have e: "AnalogRead ex_analog_on 40 ex_sys_analog_off = Returns (0, Some ErrClosed)"
    using T40[of ex_sys_analog_off] r by blast
  from a b c e show ?thesis by blast
qed

text \<open>
  C3 as stated fails: behind the device text "10000" with a newline the value is 10000,
  and \<^verbatim>\<open>AnalogRead\<close> returns 1000 with no error.
\<close>

theorem AnalogRead_five_digits_counterexample:
  "device_text (Some 0) (with_text ''10000\<newline>'' ex_sys_analog) = Some ''10000\<newline>'' \<and>
   decimal_value ''10000'' = 10000 \<and>
   AnalogRead ex_analog_on 40 (with_text ''10000\<newline>'' ex_sys_analog) = Returns (1000, None)"
  by (simp add: ex_text decimal_value_def AnalogRead_def analogGetValue_def ReadAt_text[OF ex_text]
      Atoi_def Let_def ex_analog_eval)

subsection \<open>Writing a digital pin\<close>

lemma ex_failed_eval:
  "fst (PinMode ex_gpio 7 Output ex_sys_bare) = Some ENOENT"
  "ex_gpio_failed =
     \<lparr>name = ''gpio'', definedPins = [(7, \<lparr>def_pin = 7, def_gpioLogical = 83\<rparr>)],
      openPins = [(7, \<lparr>pin = 7, gpioLogical = 83, gpioBaseName = [], mode = Input,
                        valueFile = None\<rparr>)]\<rparr>"
  "files ex_sys_failed = []"
  "trace ex_sys_failed =
     [EvAssignPin 7 ''gpio'', EvWriteStringToFile ''/sys/class/gpio/export'' ''83'']"
  by (simp_all add: ex_gpio_failed_def ex_sys_failed_def ex_gpio_def ex_sys_bare_def eval_defs)

lemma Seek_ok:
  "h < length (files w) \<Longrightarrow> \<not> fclosed (files w ! h) \<Longrightarrow>
   Seek (Some h) off w =
     (None, w\<lparr>files := (files w)[h := (files w ! h)\<lparr>fpos := off\<rparr>],
              trace := trace w @ [EvSeek (Some h) off]\<rparr>)"
  by (simp add: Seek_def checkValid_def emit_def Let_def)

lemma WriteString_trace:
  "trace (snd (WriteString f s w)) = trace w @ [EvWriteString f s]"
  by (simp add: WriteString_def emit_def Let_def split: sum.splits option.splits prod.splits)

lemma WriteString_paths:
  "h < length (files w) \<Longrightarrow> \<not> fclosed (files w ! h) \<Longrightarrow> fflag (files w ! h) = O_WRONLY_TRUNC \<Longrightarrow>
   paths w (fpath (files w ! h)) = Some c \<Longrightarrow>
   paths (snd (WriteString (Some h) s w)) (fpath (files w ! h)) =
     Some (take (fpos (files w ! h)) c @ s @ drop (fpos (files w ! h) + length s) c)"
  by (simp add: WriteString_def checkValid_def emit_def Let_def)

lemma gpioSetValue_live:
  assumes "valueFile op = Some h" "h < length (files w)" "\<not> fclosed (files w ! h)"
  shows "gpioSetValue op v w =
    (None, snd (WriteString (Some h) (if v = 0 then ''0'' else ''1'')
       (w\<lparr>files := (files w)[h := (files w ! h)\<lparr>fpos := 0\<rparr>],
          trace := trace w @ [EvSeek (Some h) 0]\<rparr>)))"
  using assms by (simp add: gpioSetValue_def Seek_ok split: prod.splits)

text \<open>
  C5, as the code has it. \<^verbatim>\<open>DigitalWrite\<close> fails with the not-opened error, and
  changes nothing, when the pin has no open-pin object; it does not test the mode of
  the object. When the object holds a live value file, \<^verbatim>\<open>DigitalWrite\<close> makes
  two calls: the seek of the value file to offset 0, then the write of one character,
  "0" for the value 0 and "1" for any other value. Through a file opened for writing,
  as \<^verbatim>\<open>PinMode\<close> opens it for an output, the character replaces the first byte
  of the content of the value file and \<^verbatim>\<open>DigitalWrite\<close> returns no error.
\<close>

theorem DigitalWrite_seek_then_write:
  "(map_of (openPins m) p = None \<longrightarrow> DigitalWrite m p v w = (Some ErrWriteNotOpened, w)) \<and>
   (\<forall>op h. map_of (openPins m) p = Some op \<and> valueFile op = Some h \<and>
        h < length (files w) \<and> \<not> fclosed (files w ! h) \<longrightarrow>
      trace (snd (DigitalWrite m p v w)) =
        trace w @ [EvSeek (Some h) 0, EvWriteString (Some h) (if v = 0 then ''0'' else ''1'')] \<and>
      (\<forall>c. fflag (files w ! h) = O_WRONLY_TRUNC \<and>
           paths w (fpath (files w ! h)) = Some c \<longrightarrow>
         fst (DigitalWrite m p v w) = None \<and>
         paths (snd (DigitalWrite m p v w)) (fpath (files w ! h)) =
           Some ((if v = 0 then ''0'' else ''1'') @ drop 1 c)))"
proof -
  have a: "map_of (openPins m) p = None \<longrightarrow> DigitalWrite m p v w = (Some ErrWriteNotOpened, w)"
    by (simp add: DigitalWrite_def)
  have b: "trace (snd (DigitalWrite m p v w)) =
        trace w @ [EvSeek (Some h) 0, EvWriteString (Some h) (if v = 0 then ''0'' else ''1'')] \<and>
      (\<forall>c. fflag (files w ! h) = O_WRONLY_TRUNC \<and>
           paths w (fpath (files w ! h)) = Some c \<longrightarrow>
         fst (DigitalWrite m p v w) = None \<and>
         paths (snd (DigitalWrite m p v w)) (fpath (files w ! h)) =
           Some ((if v = 0 then ''0'' else ''1'') @ drop 1 c))"
    if o: "map_of (openPins m) p = Some op" and f: "valueFile op = Some h"
      and l: "h < length (files w)" and nc: "\<not> fclosed (files w ! h)" for op h
  proof -
    let ?tok = "if v = 0 then ''0'' else ''1''"
    let ?w1 = "w\<lparr>files := (files w)[h := (files w ! h)\<lparr>fpos := 0\<rparr>],
                 trace := trace w @ [EvSeek (Some h) 0]\<rparr>"
    have dw: "DigitalWrite m p v w = (None, snd (WriteString (Some h) ?tok ?w1))"
      using o gpioSetValue_live[OF f l nc, of v] by (simp add: DigitalWrite_def)
    have tr: "trace (snd (WriteString (Some h) ?tok ?w1)) =
        trace w @ [EvSeek (Some h) 0, EvWriteString (Some h) ?tok]"
      by (simp add: WriteString_trace)
    have ps: "paths (snd (WriteString (Some h) ?tok ?w1)) (fpath (files w ! h)) =
        Some (?tok @ drop 1 c)"
      if "fflag (files w ! h) = O_WRONLY_TRUNC" "paths w (fpath (files w ! h)) = Some c" for c
      using WriteString_paths[of h ?w1 c ?tok] l nc that by simp
    from dw tr ps show ?thesis by simp
  qed
  from a b show ?thesis by blast
qed

text \<open>
  The theorem at the output pin 7 of the example, for the values 1 and 0, at the
  pin 8, which has no open-pin object, and at the input pin 7, where the same two calls
  are made.
\<close>

theorem DigitalWrite_seek_then_write_witness:
  "DigitalWrite ex_gpio_out 8 1 ex_sys_out = (Some ErrWriteNotOpened, ex_sys_out) \<and>
   fst (DigitalWrite ex_gpio_out 7 1 ex_sys_out) = None \<and>
   trace (snd (DigitalWrite ex_gpio_out 7 1 ex_sys_out)) =
     trace ex_sys_out @ [EvSeek (Some 0) 0, EvWriteString (Some 0) ''1''] \<and>
   paths (snd (DigitalWrite ex_gpio_out 7 1 ex_sys_out)) ''/sys/class/gpio/gpio83/value'' = Some ''1'' \<and>
   trace (snd (DigitalWrite ex_gpio_out 7 0 ex_sys_out)) =
     trace ex_sys_out @ [EvSeek (Some 0) 0, EvWriteString (Some 0) ''0''] \<and>
   paths (snd (DigitalWrite ex_gpio_out 7 0 ex_sys_out)) ''/sys/class/gpio/gpio83/value'' = Some ''0'' \<and>
   trace (snd (DigitalWrite ex_gpio_in 7 1 ex_sys_in)) =
     trace ex_sys_in @ [EvSeek (Some 0) 0, EvWriteString (Some 0) ''1'']"
proof -
  let ?op = "\<lparr>pin = 7, gpioLogical = 83, gpioBaseName = ''/sys/class/gpio/gpio83'',
              mode = Output, valueFile = Some 0\<rparr>"
  let ?ip = "\<lparr>pin = 7, gpioLogical = 83, gpioBaseName = ''/sys/class/gpio/gpio83'',
              mode = Input, valueFile = Some 0\<rparr>"
  have n: "map_of (openPins ex_gpio_out) 8 = None"
    and o: "map_of (openPins ex_gpio_out) 7 = Some ?op"
    and f: "valueFile ?op = Some 0" "0 < length (files ex_sys_out)" "\<not> fclosed (files ex_sys_out ! 0)"
      "fflag (files ex_sys_out ! 0) = O_WRONLY_TRUNC"
      "fpath (files ex_sys_out ! 0) = ''/sys/class/gpio/gpio83/value''"
      "paths ex_sys_out (fpath (files ex_sys_out ! 0)) = Some []"
    by (simp_all add: ex_out_eval)
  have oi: "map_of (openPins ex_gpio_in) 7 = Some ?ip"
    and fi: "valueFile ?ip = Some 0" "0 < length (files ex_sys_in)" "\<not> fclosed (files ex_sys_in ! 0)"
    by (simp_all add: ex_in_eval)
  note T8 = DigitalWrite_seek_then_write[of ex_gpio_out 8 1 ex_sys_out]
  note T1 = DigitalWrite_seek_then_write[of ex_gpio_out 7 1 ex_sys_out]
  note T0 = DigitalWrite_seek_then_write[of ex_gpio_out 7 0 ex_sys_out]
  note TI = DigitalWrite_seek_then_write[of ex_gpio_in 7 1 ex_sys_in]
  have a: "DigitalWrite ex_gpio_out 8 1 ex_sys_out = (Some ErrWriteNotOpened, ex_sys_out)"
    using T8 n by blast
  have b1: "fst (DigitalWrite ex_gpio_out 7 1 ex_sys_out) = None \<and>
      trace (snd (DigitalWrite ex_gpio_out 7 1 ex_sys_out)) =
        trace ex_sys_out @ [EvSeek (Some 0) 0, EvWriteString (Some 0) (if (1::int) = 0 then ''0'' else ''1'')] \<and>
      paths (snd (DigitalWrite ex_gpio_out 7 1 ex_sys_out)) (fpath (files ex_sys_out ! 0)) =
           Some ((if (1::int) = 0 then ''0'' else ''1'') @ drop 1 [])"
    using T1 o f by blast
  have b0: "trace (snd (DigitalWrite ex_gpio_out 7 0 ex_sys_out)) =
        trace ex_sys_out @ [EvSeek (Some 0) 0, EvWriteString (Some 0) (if (0::int) = 0 then ''0'' else ''1'')] \<and>
      paths (snd (DigitalWrite ex_gpio_out 7 0 ex_sys_out)) (fpath (files ex_sys_out ! 0)) =
           Some ((if (0::int) = 0 then ''0'' else ''1'') @ drop 1 [])"
    using T0 o f by blast
  have bi: "trace (snd (DigitalWrite ex_gpio_in 7 1 ex_sys_in)) =
        trace ex_sys_in @ [EvSeek (Some 0) 0, EvWriteString (Some 0) (if (1::int) = 0 then ''0'' else ''1'')]"
    using TI oi fi by blast
  from a b1 b0 bi f(5) show ?thesis by simp
qed

text \<open>
  C5 as stated fails: \<^verbatim>\<open>DigitalWrite\<close> on the input pin 7 returns no error and
  leaves every file as it is, so an output-mode handle is not required; and on the
  open-pin object that a failed \<^verbatim>\<open>PinMode\<close> left without a value file it
  returns no error and makes no call, neither a seek nor a write.
\<close>

theorem DigitalWrite_mode_not_required_counterexample:
  "map_of (openPins ex_gpio_in) 7 =
     Some \<lparr>pin = 7, gpioLogical = 83, gpioBaseName = ''/sys/class/gpio/gpio83'',
           mode = Input, valueFile = Some 0\<rparr> \<and>
   fst (DigitalWrite ex_gpio_in 7 1 ex_sys_in) = None \<and>
   paths (snd (DigitalWrite ex_gpio_in 7 1 ex_sys_in)) = paths ex_sys_in \<and>
   map_of (openPins ex_gpio_failed) 7 =
     Some \<lparr>pin = 7, gpioLogical = 83, gpioBaseName = [], mode = Input, valueFile = None\<rparr> \<and>
   fst (DigitalWrite ex_gpio_failed 7 1 ex_sys_failed) = None \<and>
   trace (snd (DigitalWrite ex_gpio_failed 7 1 ex_sys_failed)) = trace ex_sys_failed"
  by (simp add: DigitalWrite_def gpioSetValue_def Seek_def WriteString_def checkValid_def emit_def
      Let_def ex_in_eval ex_failed_eval)

subsection \<open>Hardware detection\<close>

text \<open>
  C8, as the code has it. \<^verbatim>\<open>MatchesHardwareConfig\<close> is true exactly when the
  \<^verbatim>\<open>Hardware\<close> field of the record of processor 3 is "ODROIDC" or "ODROID-C2",
  and \<^verbatim>\<open>BoardRevision\<close> is 1 for "ODROIDC" and 2 for "ODROID-C2" in that same
  field. The record of processor 3 is the record of the highest-numbered processor on
  the boards with four processors listed; there the detection reads the record the
  claim names.
\<close>

theorem MatchesHardwareConfig_processor_3:
  "(MatchesHardwareConfig info \<longleftrightarrow>
      CpuInfo info 3 ''Hardware'' = ''ODROIDC'' \<or> CpuInfo info 3 ''Hardware'' = ''ODROID-C2'') \<and>
   (CpuInfo info 3 ''Hardware'' = ''ODROIDC'' \<longrightarrow> BoardRevision info = 1) \<and>
   (CpuInfo info 3 ''Hardware'' = ''ODROID-C2'' \<longrightarrow> BoardRevision info = 2) \<and>
   (highest_processor info = 3 \<longrightarrow>
      (MatchesHardwareConfig info \<longleftrightarrow>
         CpuInfo info (highest_processor info) ''Hardware'' = ''ODROIDC'' \<or>
         CpuInfo info (highest_processor info) ''Hardware'' = ''ODROID-C2''))"
  by (simp add: MatchesHardwareConfig_def BoardRevision_def Let_def)

text \<open>The theorem at the data of an Odroid C1 and of an Odroid C2 with four processors.\<close>

theorem MatchesHardwareConfig_processor_3_witness:
  "highest_processor ex_cpuinfo_c1 = 3 \<and> CpuInfo ex_cpuinfo_c1 3 ''Hardware'' = ''ODROIDC'' \<and>
   MatchesHardwareConfig ex_cpuinfo_c1 \<and> BoardRevision ex_cpuinfo_c1 = 1 \<and>
   highest_processor ex_cpuinfo_c2 = 3 \<and> CpuInfo ex_cpuinfo_c2 3 ''Hardware'' = ''ODROID-C2'' \<and>
   MatchesHardwareConfig ex_cpuinfo_c2 \<and> BoardRevision ex_cpuinfo_c2 = 2"
proof -
  have h: "highest_processor ex_cpuinfo_c1 = 3" "CpuInfo ex_cpuinfo_c1 3 ''Hardware'' = ''ODROIDC''"
    "highest_processor ex_cpuinfo_c2 = 3" "CpuInfo ex_cpuinfo_c2 3 ''Hardware'' = ''ODROID-C2''"
    by (simp_all add: highest_processor_def CpuInfo_def ex_cpuinfo_c1_def ex_cpuinfo_c2_def)
  show ?thesis
    using MatchesHardwareConfig_processor_3[of ex_cpuinfo_c1]
      MatchesHardwareConfig_processor_3[of ex_cpuinfo_c2] h
    by simp
qed

text \<open>
  C8 as stated fails: with two processors listed, the \<^verbatim>\<open>Hardware\<close> field of the
  highest-numbered record is "ODROIDC", and \<^verbatim>\<open>MatchesHardwareConfig\<close> is false.
\<close>

theorem MatchesHardwareConfig_two_processors_counterexample:
  "highest_processor ex_cpuinfo_two = 1 \<and>
   CpuInfo ex_cpuinfo_two (highest_processor ex_cpuinfo_two) ''Hardware'' = ''ODROIDC'' \<and>
   \<not> MatchesHardwareConfig ex_cpuinfo_two"
  by (simp add: highest_processor_def CpuInfo_def MatchesHardwareConfig_def ex_cpuinfo_two_def)

subsection \<open>Where the code does not do what its documentation says\<close>

text \<open>
  C2. \<^verbatim>\<open>Disable\<close> of the GPIO module ("disables module and release any pins
  assigned") at the output pin 7 of the example: the only call is the write to
  \<^verbatim>\<open>unexport\<close>. The open-pin object stays in the table, its value file stays
  open, and the registry still names the module as the owner of the pin.
\<close>

theorem Disable_keeps_pin_assigned:
  "fst (Disable ex_gpio_out ex_sys_out) = None \<and>
   openPins (fst (snd (Disable ex_gpio_out ex_sys_out))) = openPins ex_gpio_out \<and>
   trace (snd (snd (Disable ex_gpio_out ex_sys_out))) =
     trace ex_sys_out @ [EvWriteStringToFile ''/sys/class/gpio/unexport'' ''83''] \<and>
   files (snd (snd (Disable ex_gpio_out ex_sys_out))) =
     [\<lparr>fpath = ''/sys/class/gpio/gpio83/value'', fflag = O_WRONLY_TRUNC, fpos = 0, fclosed = False\<rparr>] \<and>
   assignedPins (snd (snd (Disable ex_gpio_out ex_sys_out))) 7 = Some ''gpio''"
  by (simp add: Disable_def gpioUnexport_def WriteStringToFile_def sysfs_write_def gpio_node_def
      emit_def FormatInt_def formatBits.simps digit_char_def Let_def ex_out_eval)

text \<open>
  C6. \<^verbatim>\<open>DigitalWrite\<close> at the input pin 7 of the example: the write to the file
  opened read-only fails with \<^verbatim>\<open>EBADF\<close>, the value file keeps its content, and
  \<^verbatim>\<open>DigitalWrite\<close> returns no error. After a failed \<^verbatim>\<open>PinMode\<close> the
  open-pin object has no value file: \<^verbatim>\<open>gpioSetValue\<close> returns its error, and
  \<^verbatim>\<open>DigitalWrite\<close> returns none.
\<close>

theorem DigitalWrite_drops_errors:
  "fst (WriteString (Some 0) ''1'' (snd (Seek (Some 0) 0 ex_sys_in))) = Some EBADF \<and>
   fst (DigitalWrite ex_gpio_in 7 1 ex_sys_in) = None \<and>
   paths (snd (DigitalWrite ex_gpio_in 7 1 ex_sys_in)) ''/sys/class/gpio/gpio83/value'' =
     paths ex_sys_in ''/sys/class/gpio/gpio83/value'' \<and>
   fst (gpioSetValue \<lparr>pin = 7, gpioLogical = 83, gpioBaseName = [], mode = Input,
                       valueFile = None\<rparr> 1 ex_sys_failed) = Some ErrValueFileUndefined \<and>
   DigitalWrite ex_gpio_failed 7 1 ex_sys_failed = (None, ex_sys_failed)"
  by (simp add: DigitalWrite_def gpioSetValue_def Seek_def WriteString_def checkValid_def emit_def
      Let_def ex_in_eval ex_failed_eval)

text \<open>
  C7. \<^verbatim>\<open>SetOptions\<close> with a value under "pins" that is not the pin map of the
  module (a list of pins, or the pin map of the other module) panics; without the key it
  returns the error.
\<close>

theorem SetOptions_wrong_shape_panics:
  "SetOptions (NewDTGPIOModule ''gpio'') [''pins'' \<mapsto> PinList [3, 5]] = Panics \<and>
   SetOptions (NewDTGPIOModule ''gpio'') [''pins'' \<mapsto> AnalogPins (adefinedPins ex_analog)] = Panics \<and>
   AnalogSetOptions (NewODroidCXAnalogModule ''analog'') [''pins'' \<mapsto> GPIOPins (definedPins ex_gpio)] = Panics \<and>
   SetOptions (NewDTGPIOModule ''gpio'') Map.empty =
     Returns (Some (ErrNoPinsOption ''gpio''), NewDTGPIOModule ''gpio'')"
  by (simp add: SetOptions_def AnalogSetOptions_def GetName_def NewDTGPIOModule_def
      NewODroidCXAnalogModule_def)

end
